theory Spec2Isabelle
  imports Main
begin

section \<open>The message protocol (internal/agent/message.go)\<close>

text \<open>
  Go strings are modelled as \<^typ>\<open>string\<close>; an \<^verbatim>\<open>error\<close> value is
  modelled by its message (the only thing the code reads from it, through
  \<^verbatim>\<open>err.Error()\<close> and \<^verbatim>\<open>%v\<close>), and a nil error as \<^const>\<open>None\<close>.
  A \<^verbatim>\<open>json.RawMessage\<close> is a string of bytes; the nil raw message of a
  \<^verbatim>\<open>Message\<close> built without a \<^verbatim>\<open>Data\<close> field is \<^const>\<open>None\<close>.
\<close>

datatype MessageType =
    MessageTypeUserInput
  | MessageTypeAssistant
  | MessageTypeToolCall
  | MessageTypeToolResult
  | MessageTypeError
  | MessageTypeSystemInfo

record Message =
  Type :: MessageType
  Content :: string
  Data :: "string option"

record ToolCallData =
  call_ToolName :: string
  call_ToolID :: string
  call_Input :: string

record ToolResultData =
  res_ToolName :: string
  res_ToolID :: string
  res_Result :: string
  res_IsError :: bool

text \<open>
  \<^verbatim>\<open>encoding/json\<close> is a library outside the repository. Its two directions are
  parameters of the model: \<^verbatim>\<open>json.Marshal\<close> returns the encoded bytes or an error,
  \<^verbatim>\<open>json.Unmarshal\<close> into a struct returns the decoded struct or fails.
\<close>

record json =
  marshalCall :: "ToolCallData \<Rightarrow> string + string"
  marshalResult :: "ToolResultData \<Rightarrow> string + string"
  unmarshalCall :: "string option \<Rightarrow> ToolCallData option"
  unmarshalResult :: "string option \<Rightarrow> ToolResultData option"

text \<open>
  The \<^verbatim>\<open>Frontend\<close> interface. An implementation is a state of type \<^typ>\<open>'f\<close>
  together with its methods; a method that mutates the receiver or performs output
  returns the new state. \<^verbatim>\<open>Close\<close> is not called by the core loop and is modelled
  with the implementations. The interface is that of calls that return: when a call of a
  frontend waits is said by the model of that frontend.
\<close>

record 'f Frontend =
  SendMessage :: "Message \<Rightarrow> 'f \<Rightarrow> 'f"
  GetUserInput :: "'f \<Rightarrow> (string \<times> bool) \<times> 'f"
  IsInteractive :: "'f \<Rightarrow> bool"

section \<open>The agent core (internal/agent, \<^verbatim>\<open>Agent\<close> with a \<^verbatim>\<open>Frontend\<close>)\<close>

text \<open>
  A tool function has the Go type \<^verbatim>\<open>func(json.RawMessage) (string, error)\<close>: it
  returns both values, and \<^verbatim>\<open>executeTool\<close> reads the string also when the error is
  not nil. The core treats tools as opaque functions of their input.
\<close>

record ToolDefinition =
  Name :: string
  Description :: string
  Function :: "string \<Rightarrow> string \<times> string option"

text \<open>
  Content blocks of the SDK, for the response of the model
  (\<^verbatim>\<open>content.Type\<close> is \<^verbatim>\<open>"text"\<close>, \<^verbatim>\<open>"tool_use"\<close> or something else) and
  for the conversation (\<^verbatim>\<open>message.ToParam()\<close> keeps the blocks as they are).
  \<^verbatim>\<open>NewToolResultBlock id content isError\<close> is the constructor \<open>ToolResultBlock\<close>.
\<close>

datatype ContentBlock =
    TextBlock string
  | ToolUseBlock string string string
  | ToolResultBlock string string bool
  | OtherBlock string

datatype Role = RoleUser | RoleAssistant

record MessageParam =
  param_Role :: Role
  param_Content :: "ContentBlock list"

definition NewUserMessage :: "ContentBlock list \<Rightarrow> MessageParam" where
  "NewUserMessage blocks = \<lparr>param_Role = RoleUser, param_Content = blocks\<rparr>"

definition ToParam :: "ContentBlock list \<Rightarrow> MessageParam" where
  "ToParam blocks = \<lparr>param_Role = RoleAssistant, param_Content = blocks\<rparr>"

text \<open>
  What the core does to the outside, in the order it does it: the messages it sends to
  the frontend, the inputs it obtains from it, its calls of the model and its calls of
  tool functions. The log is an observation of the run; the code's control flow never
  reads it.
\<close>

datatype event =
    EvSendMessage Message
  | EvGetUserInput string bool
  | EvInfer "MessageParam list"
  | EvToolFunction string string

record 'f core =
  conversation :: "MessageParam list"
  frontend :: "'f"
  trace :: "event list"

definition send :: "'f Frontend \<Rightarrow> Message \<Rightarrow> 'f core \<Rightarrow> 'f core" where
  "send fr msg st =
     st\<lparr>frontend := SendMessage fr msg (frontend st), trace := trace st @ [EvSendMessage msg]\<rparr>"

text \<open>The lookup loop of \<^verbatim>\<open>executeTool\<close>: the first tool of the profile with the name.\<close>

fun find_tool :: "ToolDefinition list \<Rightarrow> string \<Rightarrow> ToolDefinition option" where
  "find_tool [] name = None"
| "find_tool (tool # tools) name = (if Name tool = name then Some tool else find_tool tools name)"

text \<open>
  \<^verbatim>\<open>executeTool\<close>. After the tool function has returned, the variable \<^verbatim>\<open>err\<close> is
  assigned again by \<^verbatim>\<open>data, err = json.Marshal(toolResultData)\<close>, so the final
  \<^verbatim>\<open>if err != nil\<close> reads the error of the encoding, not the error of the tool.
\<close>

definition executeTool ::
  "json \<Rightarrow> 'f Frontend \<Rightarrow> ToolDefinition list \<Rightarrow> string \<Rightarrow> string \<Rightarrow> string \<Rightarrow> 'f core
     \<Rightarrow> ContentBlock \<times> 'f core" where
  "executeTool J fr tools tid name input st =
     (case find_tool tools name of
        None \<Rightarrow>
          (let toolResultData = \<lparr>res_ToolName = name, res_ToolID = tid,
                                  res_Result = ''tool not found'', res_IsError = True\<rparr>;
               st1 = (case marshalResult J toolResultData of
                        Inl err \<Rightarrow>
                          send fr \<lparr>Type = MessageTypeToolResult, Content = ''tool not found'',
                                   Data = None\<rparr> st
                      | Inr data \<Rightarrow>
                          send fr \<lparr>Type = MessageTypeToolResult, Content = '''',
                                   Data = Some data\<rparr> st)
           in (ToolResultBlock tid ''tool not found'' True, st1))
      | Some toolDef \<Rightarrow>
          (let toolCallData = \<lparr>call_ToolName = name, call_ToolID = tid, call_Input = input\<rparr>;
               st1 = (case marshalCall J toolCallData of
                        Inl err \<Rightarrow>
                          send fr \<lparr>Type = MessageTypeToolCall,
                                   Content = ''Executing tool: '' @ name, Data = None\<rparr> st
                      | Inr data \<Rightarrow>
                          send fr \<lparr>Type = MessageTypeToolCall,
                                   Content = ''Executing tool: '' @ name, Data = Some data\<rparr> st);
               st2 = st1\<lparr>trace := trace st1 @ [EvToolFunction name input]\<rparr>;
               response = fst (Function toolDef input);
               err = snd (Function toolDef input);
               isError = (err \<noteq> None);
               result = (case err of None \<Rightarrow> response | Some e \<Rightarrow> e);
               toolResultData = \<lparr>res_ToolName = name, res_ToolID = tid,
                                  res_Result = result, res_IsError = isError\<rparr>
           in (case marshalResult J toolResultData of
                 Inl err \<Rightarrow>
                   (ToolResultBlock tid err True,
                    send fr \<lparr>Type = MessageTypeToolResult, Content = result, Data = None\<rparr> st2)
               | Inr data \<Rightarrow>
                   (ToolResultBlock tid response False,
                    send fr \<lparr>Type = MessageTypeToolResult, Content = result,
                             Data = Some data\<rparr> st2))))"

text \<open>
  The loop over \<^verbatim>\<open>message.Content\<close> in \<^verbatim>\<open>runCore\<close>: a text item is sent to
  the frontend as an assistant message, a tool-use item is executed and its result block
  is appended to \<^verbatim>\<open>toolResults\<close>, every other item is skipped.
\<close>

fun processContent ::
  "json \<Rightarrow> 'f Frontend \<Rightarrow> ToolDefinition list \<Rightarrow> ContentBlock list \<Rightarrow> ContentBlock list
     \<Rightarrow> 'f core \<Rightarrow> ContentBlock list \<times> 'f core" where
  "processContent J fr tools [] toolResults st = (toolResults, st)"
| "processContent J fr tools (TextBlock text # rest) toolResults st =
     processContent J fr tools rest toolResults
       (send fr \<lparr>Type = MessageTypeAssistant, Content = text, Data = None\<rparr> st)"
| "processContent J fr tools (ToolUseBlock tid name input # rest) toolResults st =
     (let r = executeTool J fr tools tid name input st
      in processContent J fr tools rest (toolResults @ [fst r]) (snd r))"
| "processContent J fr tools (ToolResultBlock tid c e # rest) toolResults st =
     processContent J fr tools rest toolResults st"
| "processContent J fr tools (OtherBlock ty # rest) toolResults st =
     processContent J fr tools rest toolResults st"

text \<open>
  One turn of the \<^verbatim>\<open>for\<close> loop of \<^verbatim>\<open>runCore\<close> is driven by what the outside
  does in it: either the context is done at the \<^verbatim>\<open>select\<close> at the head of the
  loop, or it is not and \<^verbatim>\<open>runInference\<close>, if the turn gets that far, fails or
  answers with the content of the model's message.
\<close>

datatype reply = InferFailed string | InferOk "ContentBlock list"

datatype step = CtxDone string | CtxLive reply

text \<open>
  How a turn of the loop ends: \<^verbatim>\<open>continue\<close> with the new value of
  \<^verbatim>\<open>readUserInput\<close>, or a return of the function (\<^verbatim>\<open>break\<close> leads to
  \<^verbatim>\<open>return nil\<close>).
\<close>

datatype 'f turn_end = Continue bool "'f core" | Return "string option" "'f core"

fun next_core :: "'f turn_end \<Rightarrow> 'f core" where
  "next_core (Continue rd st) = st"
| "next_core (Return r st) = st"

text \<open>The block under \<^verbatim>\<open>if readUserInput\<close>; the flag returned is \<^verbatim>\<open>ok\<close>.\<close>

definition readUserInputStep :: "'f Frontend \<Rightarrow> 'f core \<Rightarrow> bool \<times> 'f core" where
  "readUserInputStep fr st =
     (let r = GetUserInput fr (frontend st);
          userInput = fst (fst r);
          ok = snd (fst r);
          st1 = st\<lparr>frontend := snd r, trace := trace st @ [EvGetUserInput userInput ok]\<rparr>
      in if \<not> ok then (False, st1)
         else (True,
               send fr \<lparr>Type = MessageTypeUserInput, Content = userInput, Data = None\<rparr>
                 (st1\<lparr>conversation :=
                        conversation st1 @ [NewUserMessage [TextBlock userInput]]\<rparr>)))"

text \<open>The rest of the loop body, from the call of \<^verbatim>\<open>runInference\<close> on.\<close>

definition inferenceStep ::
  "json \<Rightarrow> 'f Frontend \<Rightarrow> ToolDefinition list \<Rightarrow> 'f core \<Rightarrow> reply \<Rightarrow> 'f turn_end" where
  "inferenceStep J fr tools st r =
     (let st1 = st\<lparr>trace := trace st @ [EvInfer (conversation st)]\<rparr>
      in case r of
           InferFailed err \<Rightarrow>
             (let st2 = send fr \<lparr>Type = MessageTypeError,
                                  Content = ''LLM request failed: '' @ err, Data = None\<rparr> st1
              in if IsInteractive fr (frontend st2) then Continue True st2
                 else Return (Some err) st2)
         | InferOk content \<Rightarrow>
             (let st2 = st1\<lparr>conversation := conversation st1 @ [ToParam content]\<rparr>;
                  p = processContent J fr tools content [] st2;
                  toolResults = fst p;
                  st3 = snd p
              in if length toolResults = 0
                 then (if IsInteractive fr (frontend st3) then Continue True st3
                       else Return None st3)
                 else Continue False
                        (st3\<lparr>conversation :=
                               conversation st3 @ [NewUserMessage toolResults]\<rparr>)))"

definition iteration ::
  "json \<Rightarrow> 'f Frontend \<Rightarrow> ToolDefinition list \<Rightarrow> bool \<Rightarrow> 'f core \<Rightarrow> step \<Rightarrow> 'f turn_end" where
  "iteration J fr tools readUserInput st ev =
     (case ev of
        CtxDone e \<Rightarrow> Return (Some e) st
      | CtxLive r \<Rightarrow>
          (if readUserInput
           then (let i = readUserInputStep fr st
                 in if fst i then inferenceStep J fr tools (snd i) r
                    else Return None (snd i))
           else inferenceStep J fr tools st r))"

text \<open>
  The loop runs as long as the outside keeps answering; it has no bound of its own. A run
  is taken along a finite script of steps: it ends with \<open>Returned\<close> when
  \<^verbatim>\<open>runCore\<close> returns (an error or nil) and with \<open>Running\<close> when the script is
  used up and the loop is still going (the flag is \<^verbatim>\<open>readUserInput\<close>).
\<close>

datatype outcome = Returned "string option" | Running bool

fun runLoop ::
  "json \<Rightarrow> 'f Frontend \<Rightarrow> ToolDefinition list \<Rightarrow> bool \<Rightarrow> 'f core \<Rightarrow> step list
     \<Rightarrow> outcome \<times> 'f core" where
  "runLoop J fr tools readUserInput st [] = (Running readUserInput, st)"
| "runLoop J fr tools readUserInput st (ev # evs) =
     (case iteration J fr tools readUserInput st ev of
        Return r st' \<Rightarrow> (Returned r, st')
      | Continue rd st' \<Rightarrow> runLoop J fr tools rd st' evs)"

text \<open>
  \<^verbatim>\<open>runCore\<close>, from an empty conversation. (\<^verbatim>\<open>Run\<close> sends the greeting when
  there is no initial message, starts \<^verbatim>\<open>runCore\<close> in a goroutine of its own and
  returns what it returns, or the error of the context if that is done first.)
\<close>

definition runCore ::
  "json \<Rightarrow> 'f Frontend \<Rightarrow> ToolDefinition list \<Rightarrow> string \<Rightarrow> 'f \<Rightarrow> step list
     \<Rightarrow> outcome \<times> 'f core" where
  "runCore J fr tools initialMessage f script =
     (let st0 = \<lparr>conversation = [], frontend = f, trace = []\<rparr>;
          st1 = (if initialMessage \<noteq> []
                 then send fr \<lparr>Type = MessageTypeUserInput, Content = initialMessage,
                               Data = None\<rparr>
                        (st0\<lparr>conversation := [NewUserMessage [TextBlock initialMessage]]\<rparr>)
                 else st0)
      in runLoop J fr tools (initialMessage = []) st1 script)"

subsection \<open>Reading a conversation and a trace\<close>

fun tool_use_ids :: "ContentBlock list \<Rightarrow> string list" where
  "tool_use_ids [] = []"
| "tool_use_ids (ToolUseBlock tid name input # bs) = tid # tool_use_ids bs"
| "tool_use_ids (b # bs) = tool_use_ids bs"

fun tool_result_ids :: "ContentBlock list \<Rightarrow> string list" where
  "tool_result_ids [] = []"
| "tool_result_ids (ToolResultBlock tid c e # bs) = tid # tool_result_ids bs"
| "tool_result_ids (b # bs) = tool_result_ids bs"

fun texts :: "ContentBlock list \<Rightarrow> string list" where
  "texts [] = []"
| "texts (TextBlock t # bs) = t # texts bs"
| "texts (b # bs) = texts bs"

fun sent :: "event list \<Rightarrow> Message list" where
  "sent [] = []"
| "sent (EvSendMessage m # es) = m # sent es"
| "sent (e # es) = sent es"

fun inputs :: "event list \<Rightarrow> (string \<times> bool) list" where
  "inputs [] = []"
| "inputs (EvGetUserInput s ok # es) = (s, ok) # inputs es"
| "inputs (e # es) = inputs es"

fun calls :: "event list \<Rightarrow> (string \<times> string) list" where
  "calls [] = []"
| "calls (EvToolFunction name input # es) = (name, input) # calls es"
| "calls (e # es) = calls es"

fun inferences :: "event list \<Rightarrow> MessageParam list list" where
  "inferences [] = []"
| "inferences (EvInfer c # es) = c # inferences es"
| "inferences (e # es) = inferences es"

text \<open>The events a step adds to the log.\<close>

definition added :: "'f core \<Rightarrow> 'f core \<Rightarrow> event list" where
  "added st st' = drop (length (trace st)) (trace st')"

text \<open>The tool uses of a message's content whose tool is in the catalog, in order.\<close>

fun registered_calls :: "ToolDefinition list \<Rightarrow> ContentBlock list \<Rightarrow> (string \<times> string) list" where
  "registered_calls tools [] = []"
| "registered_calls tools (ToolUseBlock tid name input # bs) =
     (if find_tool tools name = None then registered_calls tools bs
      else (name, input) # registered_calls tools bs)"
| "registered_calls tools (b # bs) = registered_calls tools bs"

text \<open>An event without its payload: which kind of message was sent, which tool was called.\<close>

datatype event_kind =
    Sent MessageType
  | GotUserInput
  | Inferred
  | Called string string

fun kind :: "event \<Rightarrow> event_kind" where
  "kind (EvSendMessage m) = Sent (Type m)"
| "kind (EvGetUserInput s ok) = GotUserInput"
| "kind (EvInfer c) = Inferred"
| "kind (EvToolFunction name input) = Called name input"

text \<open>
  The shape of a conversation: a message of the assistant that holds tool uses is followed
  at once by a user message that holds one tool-result block per tool use, with the same
  identifiers in the same order, and tool-result blocks occur nowhere else.
\<close>

definition has_tool_use :: "MessageParam \<Rightarrow> bool" where
  "has_tool_use m = (param_Role m = RoleAssistant \<and> tool_use_ids (param_Content m) \<noteq> [])"

definition is_tool_results :: "MessageParam \<Rightarrow> bool" where
  "is_tool_results m = (param_Role m = RoleUser \<and> tool_result_ids (param_Content m) \<noteq> [])"

definition results_for :: "MessageParam \<Rightarrow> MessageParam \<Rightarrow> bool" where
  "results_for a r =
     (param_Role r = RoleUser
      \<and> length (param_Content r) = length (tool_use_ids (param_Content a))
      \<and> tool_result_ids (param_Content r) = tool_use_ids (param_Content a))"

fun well_formed :: "MessageParam list \<Rightarrow> bool" where
  "well_formed [] = True"
| "well_formed [m] = (\<not> has_tool_use m \<and> \<not> is_tool_results m)"
| "well_formed (m # r # rest) =
     (if has_tool_use m then results_for m r \<and> well_formed rest
      else \<not> is_tool_results m \<and> well_formed (r # rest))"

section \<open>The console frontend (internal/frontend, \<^verbatim>\<open>ConsoleFrontend\<close>)\<close>

text \<open>
  The state of a console frontend: the mode, what the scanner can still read from the
  standard input (the lines left, and the error it meets after them, if any), and what
  has been written to the standard output, one entry per \<^verbatim>\<open>fmt.Printf\<close>.
\<close>

record ConsoleFrontend =
  c_interactive :: bool
  c_scanner :: "string list"
  c_scanner_err :: "string option"
  c_stdout :: "string list"

definition newline :: string where
  "newline = [CHR 0x0A]"

definition c_print :: "string \<Rightarrow> ConsoleFrontend \<Rightarrow> ConsoleFrontend" where
  "c_print s c = c\<lparr>c_stdout := c_stdout c @ [s]\<rparr>"

definition Console_SendMessage :: "json \<Rightarrow> Message \<Rightarrow> ConsoleFrontend \<Rightarrow> ConsoleFrontend" where
  "Console_SendMessage J msg c =
     (case Type msg of
        MessageTypeUserInput \<Rightarrow> c
      | MessageTypeAssistant \<Rightarrow>
          (if c_interactive c then c_print (''Trae: '' @ Content msg @ newline) c
           else c_print (Content msg @ newline) c)
      | MessageTypeToolCall \<Rightarrow>
          (if c_interactive c
           then (case unmarshalCall J (Data msg) of
                   Some toolData \<Rightarrow>
                     c_print (''Tool: '' @ call_ToolName toolData @ ''('' @ call_Input toolData
                              @ '')'' @ newline) c
                 | None \<Rightarrow> c)
           else c)
      | MessageTypeToolResult \<Rightarrow>
          (case unmarshalResult J (Data msg) of
             Some toolResult \<Rightarrow>
               (if c_interactive c
                then (if res_IsError toolResult
                      then c_print (''Tool Error ('' @ res_ToolName toolResult @ ''): ''
                                    @ res_Result toolResult @ newline) c
                      else c_print (''Tool Result ('' @ res_ToolName toolResult @ ''): ''
                                    @ res_Result toolResult @ newline) c)
                else c)
           | None \<Rightarrow> c)
      | MessageTypeError \<Rightarrow> c_print (''Error: '' @ Content msg @ newline) c
      | MessageTypeSystemInfo \<Rightarrow> c_print (Content msg @ newline) c)"

definition Console_GetUserInput :: "ConsoleFrontend \<Rightarrow> (string \<times> bool) \<times> ConsoleFrontend" where
  "Console_GetUserInput c =
     (if \<not> c_interactive c then (([], False), c)
      else (let c1 = c_print ''You: '' c
            in case c_scanner c1 of
                 [] \<Rightarrow>
                   (case c_scanner_err c1 of
                      Some err \<Rightarrow> (([], False), c_print (''Error reading input: '' @ err @ newline) c1)
                    | None \<Rightarrow> (([], False), c1))
               | line # rest \<Rightarrow> ((line, True), c1\<lparr>c_scanner := rest\<rparr>)))"

definition Console_IsInteractive :: "ConsoleFrontend \<Rightarrow> bool" where
  "Console_IsInteractive c = c_interactive c"

definition Console_Close :: "ConsoleFrontend \<Rightarrow> ConsoleFrontend" where
  "Console_Close c = c"

definition NewConsoleFrontend :: "bool \<Rightarrow> string list \<Rightarrow> ConsoleFrontend" where
  "NewConsoleFrontend interactive stdin =
     \<lparr>c_interactive = interactive, c_scanner = stdin, c_scanner_err = None, c_stdout = []\<rparr>"

definition consoleFrontend :: "json \<Rightarrow> ConsoleFrontend Frontend" where
  "consoleFrontend J =
     \<lparr>SendMessage = Console_SendMessage J, GetUserInput = Console_GetUserInput,
      IsInteractive = Console_IsInteractive\<rparr>"

subsection \<open>A codec to run examples with\<close>

text \<open>
  Examples need some encoding of the two data records. This one writes the fields one
  after the other, separated by a unit-separator character, and reads them back; it
  stands in for \<^verbatim>\<open>encoding/json\<close> in the evaluated examples only, and no theorem
  about the code depends on it.
\<close>

definition sep :: char where
  "sep = CHR 0x1F"

fun fields :: "string \<Rightarrow> string list" where
  "fields [] = [[]]"
| "fields (c # cs) =
     (if c = sep then [] # fields cs
      else (case fields cs of f # fs \<Rightarrow> (c # f) # fs | [] \<Rightarrow> [[c]]))"

definition exampleJson :: json where
  "exampleJson =
     \<lparr>marshalCall = (\<lambda>d. Inr (''call'' @ [sep] @ call_ToolName d @ [sep] @ call_ToolID d
                               @ [sep] @ call_Input d)),
      marshalResult = (\<lambda>d. Inr (''result'' @ [sep] @ res_ToolName d @ [sep] @ res_ToolID d
                                 @ [sep] @ res_Result d
                                 @ [sep] @ (if res_IsError d then ''true'' else ''false''))),
      unmarshalCall = (\<lambda>data. case data of
                         None \<Rightarrow> None
                       | Some s \<Rightarrow>
                           (case fields s of
                              [k, n, i, inp] \<Rightarrow>
                                if k = ''call''
                                then Some \<lparr>call_ToolName = n, call_ToolID = i, call_Input = inp\<rparr>
                                else None
                            | _ \<Rightarrow> None)),
      unmarshalResult = (\<lambda>data. case data of
                           None \<Rightarrow> None
                         | Some s \<Rightarrow>
                             (case fields s of
                                [k, n, i, r, e] \<Rightarrow>
                                  if k = ''result''
                                  then Some \<lparr>res_ToolName = n, res_ToolID = i, res_Result = r,
                                             res_IsError = (e = ''true'')\<rparr>
                                  else None
                              | _ \<Rightarrow> None))\<rparr>"

text \<open>Two tools to run examples with: one that succeeds and one that fails.\<close>

definition echoTool :: ToolDefinition where
  "echoTool = \<lparr>Name = ''echo'', Description = ''Return the input.'',
               Function = (\<lambda>input. (input, None))\<rparr>"

definition failTool :: ToolDefinition where
  "failTool = \<lparr>Name = ''fail'', Description = ''Always fail.'',
               Function = (\<lambda>input. ([], Some ''boom''))\<rparr>"

text \<open>A core state to run examples from: no conversation yet, a fresh console frontend.\<close>

definition exampleCore :: "bool \<Rightarrow> string list \<Rightarrow> ConsoleFrontend core" where
  "exampleCore interactive stdin =
     \<lparr>conversation = [], frontend = NewConsoleFrontend interactive stdin, trace = []\<rparr>"

section \<open>The terminal frontend (internal/frontend/tui.go)\<close>

subsection \<open>The libraries it is built on\<close>

text \<open>
  The terminal frontend is written against bubbletea, bubbles, lipgloss and glamour, which
  are not part of the repository. Their components are modelled by the state the code
  reads and writes, and their functions are parameters of the model.

  Texts are modelled for ASCII: one \<^typ>\<open>char\<close> is one byte and one rune, so that
  \<^verbatim>\<open>len\<close> and \<^verbatim>\<open>utf8.RuneCountInString\<close> are both \<^const>\<open>length\<close>. Widths
  and heights are Go \<^verbatim>\<open>int\<close>s, far from the bounds of 64 bits, and modelled as
  \<^typ>\<open>int\<close>.
\<close>

datatype style =
    titleStyle | userStyle | assistantStyle | toolStyle | errorStyle | systemStyle | inputStyle

record viewport =
  vp_Width :: int
  vp_Height :: int
  vp_YPosition :: int
  vp_content :: string

record textInput =
  ti_Placeholder :: string
  ti_CharLimit :: int
  ti_Width :: int
  ti_value :: string
  ti_focus :: bool

record spinner =
  sp_frame :: nat
  sp_id :: nat
  sp_tag :: nat

text \<open>A glamour renderer, known by the word-wrap option it was made with.\<close>

datatype renderer = TermRenderer "int option"

text \<open>
  Commands handed back to the bubbletea runtime: \<open>Quit\<close> ends the program, \<open>Tick i t\<close>
  makes the runtime deliver a \<^verbatim>\<open>spinner.TickMsg\<close> with that id and tag (this is
  \<^verbatim>\<open>m.spinner.Tick\<close> as well as the command \<^verbatim>\<open>spinner.Update\<close> returns), and
  the commands of \<^verbatim>\<open>Init\<close> and of the text input are kept by name.
\<close>

datatype cmd = Quit | Tick nat nat | EnterAltScreen | SendWindowSize int int | ComponentCmd string

text \<open>The messages \<^verbatim>\<open>Update\<close> distinguishes; a key message is its \<^verbatim>\<open>String()\<close>.\<close>

datatype msg =
    WindowSizeMsg int int
  | KeyMsg string
  | messageReceivedMsg Message
  | inputRequestMsg
  | TickMsg nat nat
  | OtherMsg

record tui_lib =
  Render :: "style \<Rightarrow> string \<Rightarrow> string"
  NewTermRenderer :: "int option \<Rightarrow> renderer option"
  glamourRender :: "renderer \<Rightarrow> string \<Rightarrow> string option"
  spinnerUpdate :: "spinner \<Rightarrow> nat \<Rightarrow> nat \<Rightarrow> spinner \<times> cmd option"
  textInputUpdate :: "textInput \<Rightarrow> string \<Rightarrow> textInput \<times> cmd option"

subsection \<open>The model of the terminal UI\<close>

text \<open>
  \<^verbatim>\<open>tuiModel\<close>. The channel \<^verbatim>\<open>inputCh\<close> is one object shared by the model and
  the frontend; the field holds what is in its buffer (of capacity 1). A nil renderer is
  \<^const>\<open>None\<close>. The field \<^verbatim>\<open>messageCh\<close> is never read or written after
  construction and is left out.
\<close>

record tuiModel =
  viewport :: viewport
  textInput :: textInput
  spinner :: spinner
  renderer :: "renderer option"
  messages :: "string list"
  width :: int
  height :: int
  inputCh :: "string list"
  interactive :: bool
  waitingForInput :: bool
  waitingForResponse :: bool
  processingTool :: bool
  currentToolName :: string
  ready :: bool

text \<open>\<^verbatim>\<open>strings.Join\<close>, \<^verbatim>\<open>strings.Fields\<close> and \<^verbatim>\<open>strings.TrimRight\<close>.\<close>

fun Join :: "string list \<Rightarrow> string \<Rightarrow> string" where
  "Join [] s = []"
| "Join [x] s = x"
| "Join (x # y # ys) s = x @ s @ Join (y # ys) s"

definition isSpace :: "char \<Rightarrow> bool" where
  "isSpace c = (c \<in> set [CHR 0x09, CHR 0x0A, CHR 0x0B, CHR 0x0C, CHR 0x0D, CHR 0x20])"

fun fieldsFrom :: "string \<Rightarrow> string \<Rightarrow> string list" where
  "fieldsFrom w [] = (if w = [] then [] else [w])"
| "fieldsFrom w (c # cs) =
     (if isSpace c then (if w = [] then fieldsFrom [] cs else w # fieldsFrom [] cs)
      else fieldsFrom (w @ [c]) cs)"

definition Fields :: "string \<Rightarrow> string list" where
  "Fields s = fieldsFrom [] s"

definition TrimRight :: "string \<Rightarrow> string \<Rightarrow> string" where
  "TrimRight s cutset = rev (dropWhile (\<lambda>c. c \<in> set cutset) (rev s))"

text \<open>
  \<^verbatim>\<open>wrapText\<close>: the loop over the words carries the finished lines and the current
  line.
\<close>

fun wrapWords :: "int \<Rightarrow> string list \<Rightarrow> string list \<Rightarrow> string \<Rightarrow> string list \<times> string" where
  "wrapWords w [] lines currentLine = (lines, currentLine)"
| "wrapWords w (word # words) lines currentLine =
     (let wordLen = int (length word);
          lineLen = int (length currentLine)
      in if lineLen + wordLen + 1 > w \<and> lineLen > 0
         then wrapWords w words (lines @ [currentLine]) word
         else wrapWords w words lines
                ((if length currentLine > 0 then currentLine @ '' '' else currentLine) @ word))"

definition wrapText :: "string \<Rightarrow> int \<Rightarrow> string" where
  "wrapText t w =
     (if w \<le> 0 then t
      else (let words = Fields t
            in if length words = 0 then t
               else (let r = wrapWords w words [] [];
                         lines = (if length (snd r) > 0 then fst r @ [snd r] else fst r)
                     in Join lines newline)))"

text \<open>
  \<^verbatim>\<open>addMessage\<close>. The time of day is a parameter. The result is \<^const>\<open>None\<close> when
  the method panics, which it does for an assistant message when the renderer is nil.
\<close>

definition addMessage ::
  "tui_lib \<Rightarrow> json \<Rightarrow> string \<Rightarrow> Message \<Rightarrow> tuiModel \<Rightarrow> tuiModel option" where
  "addMessage L J timestamp msg m =
     (let availableWidth = (if width m - 12 < 20 then 20 else width m - 12);
          stamp = ''['' @ timestamp @ ''] '';
          formattedMsg =
            (case Type msg of
               MessageTypeUserInput \<Rightarrow>
                 Some (stamp @ Render L userStyle ''You:'' @ '' ''
                       @ wrapText (Content msg) (availableWidth - 6))
             | MessageTypeAssistant \<Rightarrow>
                 (case renderer m of
                    None \<Rightarrow> None
                  | Some r \<Rightarrow>
                      (case glamourRender L r (Content msg) of
                         None \<Rightarrow>
                           Some (stamp @ Render L assistantStyle ''Trae:'' @ '' ''
                                 @ wrapText (Content msg) (availableWidth - 6))
                       | Some renderedContent \<Rightarrow>
                           Some (stamp @ Render L assistantStyle ''Trae:'' @ newline
                                 @ TrimRight renderedContent [CHR 0x0A, CHR 0x0D])))
             | MessageTypeToolCall \<Rightarrow>
                 (case unmarshalCall J (Data msg) of
                    Some toolData \<Rightarrow>
                      Some (stamp @ Render L toolStyle ''Tool:'' @ '' ''
                            @ wrapText (''Executing '' @ call_ToolName toolData)
                                (availableWidth - 6))
                  | None \<Rightarrow>
                      Some (stamp @ Render L toolStyle ''Tool:'' @ '' ''
                            @ wrapText (Content msg) (availableWidth - 6)))
             | MessageTypeToolResult \<Rightarrow>
                 (case unmarshalResult J (Data msg) of
                    Some toolResult \<Rightarrow>
                      (if res_IsError toolResult
                       then Some (stamp @ Render L errorStyle ''Error'' @ '' ''
                                  @ Render L errorStyle
                                      (wrapText (res_ToolName toolResult @ '': ''
                                                 @ res_Result toolResult)
                                         (availableWidth - 8)))
                       else (let result = (if length (res_Result toolResult) > 200
                                           then take 200 (res_Result toolResult) @ ''...''
                                           else res_Result toolResult)
                             in Some (stamp @ Render L toolStyle ''Result'' @ '' ''
                                      @ wrapText (res_ToolName toolResult @ '': '' @ result)
                                          (availableWidth - 8))))
                  | None \<Rightarrow>
                      Some (stamp @ Render L toolStyle ''Result:'' @ '' ''
                            @ wrapText (Content msg) (availableWidth - 6)))
             | MessageTypeError \<Rightarrow>
                 Some (stamp @ Render L errorStyle ''Error:'' @ '' ''
                       @ Render L errorStyle (wrapText (Content msg) (availableWidth - 8)))
             | MessageTypeSystemInfo \<Rightarrow>
                 Some (stamp @ Render L systemStyle ''System:'' @ '' ''
                       @ wrapText (Content msg) (availableWidth - 8)))
      in case formattedMsg of
           None \<Rightarrow> None
         | Some f \<Rightarrow> Some (m\<lparr>messages := messages m @ [f]\<rparr>))"

text \<open>
  How a call of \<^verbatim>\<open>Update\<close> ends: with the new model and the batch of commands
  (\<^verbatim>\<open>tea.Batch\<close> drops the nil commands), with the end of the process
  (\<^verbatim>\<open>os.Exit(0)\<close>), blocked on the send into a full \<^verbatim>\<open>inputCh\<close>, or with a
  panic.
\<close>

datatype update_result =
    Updated tuiModel "cmd list"
  | Exited
  | Blocked
  | Panicked

definition Batch :: "cmd option list \<Rightarrow> cmd list" where
  "Batch cmds = concat (map (\<lambda>c. case c of None \<Rightarrow> [] | Some x \<Rightarrow> [x]) cmds)"

text \<open>The last two statements of \<^verbatim>\<open>Update\<close>.\<close>

definition finish :: "tuiModel \<Rightarrow> cmd option list \<Rightarrow> update_result" where
  "finish m cmds =
     Updated (m\<lparr>viewport := (viewport m)\<lparr>vp_content := Join (messages m) newline\<rparr>\<rparr>)
       (Batch cmds)"

definition Init :: "cmd list" where
  "Init = [EnterAltScreen, SendWindowSize 80 24]"

definition Update :: "tui_lib \<Rightarrow> json \<Rightarrow> string \<Rightarrow> tuiModel \<Rightarrow> msg \<Rightarrow> update_result" where
  "Update L J timestamp m message =
     (case message of
        WindowSizeMsg w h \<Rightarrow>
          (let m1 = m\<lparr>width := w, height := h,
                      viewport := (viewport m)\<lparr>vp_Width := w, vp_Height := h - 4\<rparr>\<rparr>;
               m2 = (if w > 8 then m1\<lparr>textInput := (textInput m1)\<lparr>ti_Width := w - 8\<rparr>\<rparr> else m1);
               m3 = (if renderer m2 \<noteq> None \<and> w > 20
                     then (case NewTermRenderer L (Some (w - 10)) of
                             Some newRenderer \<Rightarrow> m2\<lparr>renderer := Some newRenderer\<rparr>
                           | None \<Rightarrow> m2)
                     else m2)
           in finish m3 [])
      | KeyMsg k \<Rightarrow>
          (if \<not> interactive m \<and> k = ''ctrl+c'' then Exited
           else if \<not> interactive m \<and> k = ''q'' then Updated m [Quit]
           else if waitingForInput m \<and> \<not> waitingForResponse m \<and> \<not> processingTool m
           then (if k = ''enter''
                 then (let input = ti_value (textInput m)
                       in if input \<noteq> []
                          then (if length (inputCh m) \<ge> 1 then Blocked
                                else Updated
                                       (m\<lparr>inputCh := inputCh m @ [input],
                                          textInput := (textInput m)\<lparr>ti_value := [],
                                                                      ti_focus := False\<rparr>,
                                          waitingForInput := False,
                                          waitingForResponse := True\<rparr>)
                                       (Batch [Some (Tick (sp_id (spinner m)) (sp_tag (spinner m)))]))
                          else Updated m (Batch []))
                 else if k = ''ctrl+c'' then Exited
                 else (let r = textInputUpdate L (textInput m) k
                       in finish (m\<lparr>textInput := fst r\<rparr>) [snd r]))
           else (if k = ''ctrl+c'' then Exited
                 else if k = ''q'' then Updated m [Quit]
                 else finish m []))
      | messageReceivedMsg msg \<Rightarrow>
          (case addMessage L J timestamp msg m of
             None \<Rightarrow> Panicked
           | Some m1 \<Rightarrow>
               (if Type msg = MessageTypeToolCall
                then (let m2 = m1\<lparr>processingTool := True\<rparr>;
                          m3 = (case unmarshalCall J (Data msg) of
                                  Some toolData \<Rightarrow>
                                    m2\<lparr>currentToolName := call_ToolName toolData\<rparr>
                                | None \<Rightarrow> m2)
                      in finish m3 [Some (Tick (sp_id (spinner m3)) (sp_tag (spinner m3)))])
                else if Type msg = MessageTypeToolResult
                then finish (m1\<lparr>processingTool := False, currentToolName := []\<rparr>) []
                else if Type msg = MessageTypeAssistant
                then finish (m1\<lparr>waitingForResponse := False, waitingForInput := True,
                                 textInput := (textInput m1)\<lparr>ti_focus := True\<rparr>\<rparr>) []
                else finish m1 []))
      | inputRequestMsg \<Rightarrow>
          finish (m\<lparr>waitingForInput := True, waitingForResponse := False,
                    textInput := (textInput m)\<lparr>ti_value := [], ti_focus := True\<rparr>\<rparr>) []
      | TickMsg i t \<Rightarrow>
          (let r = spinnerUpdate L (spinner m) i t;
               m1 = m\<lparr>spinner := fst r\<rparr>
           in if waitingForResponse m1 \<or> processingTool m1 then finish m1 [snd r]
              else finish m1 [])
      | OtherMsg \<Rightarrow> finish m [])"

subsection \<open>The frontend around the model\<close>

text \<open>
  \<^verbatim>\<open>TUIFrontend\<close>. The program of an interactive frontend is the model its event
  loop holds, the commands the runtime has been handed and has still to run, and how far
  the goroutine \<^verbatim>\<open>run\<close> has got: inside \<^verbatim>\<open>program.Run()\<close>; asked to quit, so
  that \<^verbatim>\<open>Run\<close> is about to return; or past its last statement
  \<^verbatim>\<open>t.done <- true\<close>. That statement is the only send on \<^verbatim>\<open>done\<close>, whose
  buffer is the field \<open>t_done\<close>. A non-interactive frontend has no program (nil) and
  writes to the standard output. \<open>newModel\<close> is the model that
  \<^verbatim>\<open>NewTUIFrontend\<close> builds.
\<close>

datatype run_state = InRun | Quitting | DoneSent

record program =
  p_model :: tuiModel
  p_pending :: "cmd list"
  p_run :: run_state

record TUIFrontend =
  t_program :: "program option"
  t_interactive :: bool
  t_done :: "bool list"
  t_stdout :: "string list"

definition newModel :: "tui_lib \<Rightarrow> bool \<Rightarrow> tuiModel" where
  "newModel L isInteractive =
     \<lparr>viewport = \<lparr>vp_Width = 80, vp_Height = 20, vp_YPosition = 3, vp_content = []\<rparr>,
      textInput = \<lparr>ti_Placeholder = ''Type your message here...'', ti_CharLimit = 1000,
                   ti_Width = 72, ti_value = [], ti_focus = False\<rparr>,
      spinner = \<lparr>sp_frame = 0, sp_id = 1, sp_tag = 0\<rparr>,
      renderer = (case NewTermRenderer L (Some 80) of
                    Some r \<Rightarrow> Some r
                  | None \<Rightarrow> NewTermRenderer L None),
      messages = [], width = 80, height = 24, inputCh = [],
      interactive = isInteractive, waitingForInput = False,
      waitingForResponse = False, processingTool = False, currentToolName = [],
      ready = True\<rparr>"

definition NewTUIFrontend :: "tui_lib \<Rightarrow> bool \<Rightarrow> TUIFrontend" where
  "NewTUIFrontend L isInteractive =
     \<lparr>t_program = (if isInteractive
                    then Some \<lparr>p_model = newModel L isInteractive, p_pending = Init,
                               p_run = InRun\<rparr>
                    else None),
      t_interactive = isInteractive, t_done = [], t_stdout = []\<rparr>"

text \<open>
  The goroutine \<^verbatim>\<open>run\<close> once \<^verbatim>\<open>program.Run()\<close> has returned: it sends on
  \<^verbatim>\<open>done\<close>, once.
\<close>

definition run_returns :: "TUIFrontend \<Rightarrow> TUIFrontend" where
  "run_returns t =
     (case t_program t of
        None \<Rightarrow> t
      | Some p \<Rightarrow>
          (if p_run p = Quitting
           then t\<lparr>t_program := Some (p\<lparr>p_run := DoneSent\<rparr>), t_done := t_done t @ [True]\<rparr>
           else t))"

text \<open>
  \<^verbatim>\<open>program.Quit()\<close>: the event loop of a running program is told to end; on a
  program that has ended it does nothing.
\<close>

definition program_Quit :: "TUIFrontend \<Rightarrow> TUIFrontend" where
  "program_Quit t =
     (case t_program t of
        None \<Rightarrow> t
      | Some p \<Rightarrow> (if p_run p = InRun then t\<lparr>t_program := Some (p\<lparr>p_run := Quitting\<rparr>)\<rparr> else t))"

text \<open>
  What a call into the frontend comes to: it returns, the process ends or panics inside
  the event loop, or the caller waits on a channel. \<open>Waiting\<close> is a wait that an event
  of the UI can still end; \<open>BlockedForever\<close> is a receive on \<^verbatim>\<open>done\<close> when its
  buffer is empty and its only sender has already sent.
\<close>

datatype 'a call = Returns 'a | ProcessEnds | Panics | Waiting | BlockedForever

text \<open>
  \<^verbatim>\<open>program.Send\<close>: the event loop of a running program applies \<^verbatim>\<open>Update\<close> to
  the message and keeps the commands; a \<open>Quit\<close> among them ends the loop. A program that
  has ended drops the message.
\<close>

definition program_Send :: "tui_lib \<Rightarrow> json \<Rightarrow> string \<Rightarrow> msg \<Rightarrow> TUIFrontend \<Rightarrow> TUIFrontend call" where
  "program_Send L J timestamp message t =
     (case t_program t of
        None \<Rightarrow> Returns t
      | Some p \<Rightarrow>
          (if p_run p \<noteq> InRun then Returns t
           else (case Update L J timestamp (p_model p) message of
                   Updated m cmds \<Rightarrow>
                     Returns (t\<lparr>t_program :=
                                  Some (p\<lparr>p_model := m, p_pending := p_pending p @ cmds,
                                          p_run := (if Quit \<in> set cmds then Quitting else InRun)\<rparr>)\<rparr>)
                 | Exited \<Rightarrow> ProcessEnds
                 | Blocked \<Rightarrow> Waiting
                 | Panicked \<Rightarrow> Panics)))"


definition TUI_IsInteractive :: "TUIFrontend \<Rightarrow> bool" where
  "TUI_IsInteractive t = t_interactive t"

text \<open>
  \<^verbatim>\<open>Close\<close>. Between \<^verbatim>\<open>program.Quit()\<close> and the \<^verbatim>\<open>select\<close> the goroutine
  \<^verbatim>\<open>run\<close> may or may not have sent on \<^verbatim>\<open>done\<close> already; \<open>early\<close> says which.
  The \<^verbatim>\<open>select\<close> takes a value that is in the buffer; otherwise its default branch
  is a plain receive, which gets the value if \<^verbatim>\<open>run\<close> has still to send it.
\<close>

definition TUI_Close :: "bool \<Rightarrow> TUIFrontend \<Rightarrow> TUIFrontend call" where
  "TUI_Close early t =
     (if t_interactive t \<and> t_program t \<noteq> None
      then (let t1 = program_Quit t;
                t2 = (if early then run_returns t1 else t1)
            in case t_done t2 of
                 v # rest \<Rightarrow> Returns (t2\<lparr>t_done := rest\<rparr>)
               | [] \<Rightarrow>
                   (case t_done (run_returns t2) of
                      v # rest \<Rightarrow> Returns ((run_returns t2)\<lparr>t_done := rest\<rparr>)
                    | [] \<Rightarrow> BlockedForever))
      else Returns t)"

text \<open>
  \<^verbatim>\<open>GetUserInput\<close>. The \<^verbatim>\<open>select\<close> receives from \<^verbatim>\<open>inputCh\<close> or from
  \<^verbatim>\<open>done\<close>, whichever holds a value (\<open>preferInput\<close> decides when both do), and
  waits when neither does.
\<close>

definition TUI_GetUserInput ::
  "tui_lib \<Rightarrow> json \<Rightarrow> string \<Rightarrow> bool \<Rightarrow> TUIFrontend \<Rightarrow> ((string \<times> bool) \<times> TUIFrontend) call" where
  "TUI_GetUserInput L J timestamp preferInput t =
     (if \<not> t_interactive t then Returns (([], False), t)
      else (case program_Send L J timestamp inputRequestMsg t of
              Returns t1 \<Rightarrow>
                (case t_program t1 of
                   None \<Rightarrow>
                     (case t_done t1 of
                        v # rest \<Rightarrow> Returns (([], False), t1\<lparr>t_done := rest\<rparr>)
                      | [] \<Rightarrow> Waiting)
                 | Some p \<Rightarrow>
                     (case (inputCh (p_model p), t_done t1) of
                        (input # others, []) \<Rightarrow>
                          Returns ((input, True),
                                   t1\<lparr>t_program := Some (p\<lparr>p_model := (p_model p)\<lparr>inputCh := others\<rparr>\<rparr>)\<rparr>)
                      | ([], v # rest) \<Rightarrow> Returns (([], False), t1\<lparr>t_done := rest\<rparr>)
                      | (input # others, v # rest) \<Rightarrow>
                          (if preferInput
                           then Returns ((input, True),
                                         t1\<lparr>t_program :=
                                               Some (p\<lparr>p_model := (p_model p)\<lparr>inputCh := others\<rparr>\<rparr>)\<rparr>)
                           else Returns (([], False), t1\<lparr>t_done := rest\<rparr>))
                      | ([], []) \<Rightarrow> Waiting))
            | ProcessEnds \<Rightarrow> ProcessEnds
            | Panics \<Rightarrow> Panics
            | Waiting \<Rightarrow> Waiting
            | BlockedForever \<Rightarrow> BlockedForever))"

subsection \<open>Libraries to run examples with\<close>






section \<open>Properties of the agent core\<close>

subsection \<open>Auxiliary facts\<close>

lemma send_trace [simp]: "trace (send fr m st) = trace st @ [EvSendMessage m]"
  by (simp add: send_def)

lemma send_conversation [simp]: "conversation (send fr m st) = conversation st"
  by (simp add: send_def)

lemma send_frontend [simp]: "frontend (send fr m st) = SendMessage fr m (frontend st)"
  by (simp add: send_def)

lemma sent_append [simp]: "sent (xs @ ys) = sent xs @ sent ys"
  by (induction xs rule: sent.induct) simp_all

lemma inputs_append [simp]: "inputs (xs @ ys) = inputs xs @ inputs ys"
  by (induction xs rule: inputs.induct) simp_all

lemma calls_append [simp]: "calls (xs @ ys) = calls xs @ calls ys"
  by (induction xs rule: calls.induct) simp_all

lemma inferences_append [simp]: "inferences (xs @ ys) = inferences xs @ inferences ys"
  by (induction xs rule: inferences.induct) simp_all

lemma tool_result_ids_append [simp]:
  "tool_result_ids (xs @ ys) = tool_result_ids xs @ tool_result_ids ys"
  by (induction xs rule: tool_result_ids.induct) simp_all

lemma find_tool_None_iff: "find_tool tools name = None \<longleftrightarrow> name \<notin> Name ` set tools"
  by (induction tools) auto

lemma find_tool_Some_Name: "find_tool tools name = Some t \<Longrightarrow> Name t = name \<and> t \<in> set tools"
  by (induction tools) (auto split: if_splits)

lemma executeTool_conversation [simp]:
  "conversation (snd (executeTool J fr tools tid name input st)) = conversation st"
  by (simp add: executeTool_def Let_def split: option.splits sum.splits)

lemma executeTool_result_id:
  "\<exists>c e. fst (executeTool J fr tools tid name input st) = ToolResultBlock tid c e"
  by (auto simp add: executeTool_def Let_def split: option.splits sum.splits)

lemma executeTool_trace:
  "\<exists>es. trace (snd (executeTool J fr tools tid name input st)) = trace st @ es
     \<and> filter (\<lambda>m. Type m = MessageTypeAssistant) (sent es) = []
     \<and> inputs es = [] \<and> inferences es = []
     \<and> calls es = (if find_tool tools name = None then [] else [(name, input)])"
  by (simp add: executeTool_def Let_def split: option.splits sum.splits)

lemma processContent_conversation [simp]:
  "conversation (snd (processContent J fr tools content acc st)) = conversation st"
  by (induction J fr tools content acc st rule: processContent.induct) (simp_all add: Let_def)

lemma processContent_results:
  "\<exists>rs. fst (processContent J fr tools content acc st) = acc @ rs
     \<and> length rs = length (tool_use_ids content)
     \<and> tool_result_ids rs = tool_use_ids content"
proof (induction J fr tools content acc st rule: processContent.induct)
  case (3 J fr tools tid name input rest toolResults st)
  obtain c e where b: "fst (executeTool J fr tools tid name input st) = ToolResultBlock tid c e"
    using executeTool_result_id by blast
  from 3[OF refl] obtain rs where
    "fst (processContent J fr tools rest
           (toolResults @ [fst (executeTool J fr tools tid name input st)])
           (snd (executeTool J fr tools tid name input st)))
       = (toolResults @ [fst (executeTool J fr tools tid name input st)]) @ rs"
    "length rs = length (tool_use_ids rest)" "tool_result_ids rs = tool_use_ids rest"
    by blast
  then show ?case
    by (intro exI[of _ "ToolResultBlock tid c e # rs"]) (simp add: Let_def b)
qed simp_all

lemma processContent_trace:
  "\<exists>es. trace (snd (processContent J fr tools content acc st)) = trace st @ es
     \<and> filter (\<lambda>m. Type m = MessageTypeAssistant) (sent es)
         = map (\<lambda>t. \<lparr>Type = MessageTypeAssistant, Content = t, Data = None\<rparr>) (texts content)
     \<and> inputs es = [] \<and> inferences es = []
     \<and> calls es = registered_calls tools content"
proof (induction J fr tools content acc st rule: processContent.induct)
  case (2 J fr tools t rest toolResults st)
  then obtain es where
    "trace (snd (processContent J fr tools rest toolResults
        (send fr \<lparr>Type = MessageTypeAssistant, Content = t, Data = None\<rparr> st)))
      = trace (send fr \<lparr>Type = MessageTypeAssistant, Content = t, Data = None\<rparr> st) @ es"
    "filter (\<lambda>m. Type m = MessageTypeAssistant) (sent es)
         = map (\<lambda>t. \<lparr>Type = MessageTypeAssistant, Content = t, Data = None\<rparr>) (texts rest)"
    "inputs es = []" "inferences es = []" "calls es = registered_calls tools rest"
    by blast
  then show ?case
    by (intro exI[of _ "EvSendMessage \<lparr>Type = MessageTypeAssistant, Content = t, Data = None\<rparr> # es"])
       simp
next
  case (3 J fr tools tid name input rest toolResults st)
  let ?r = "executeTool J fr tools tid name input st"
  obtain es1 where e1: "trace (snd ?r) = trace st @ es1"
     "filter (\<lambda>m. Type m = MessageTypeAssistant) (sent es1) = []"
     "inputs es1 = []" "inferences es1 = []"
     "calls es1 = (if find_tool tools name = None then [] else [(name, input)])"
    using executeTool_trace[of J fr tools tid name input st] by blast
  from 3[OF refl] obtain es2 where e2:
    "trace (snd (processContent J fr tools rest (toolResults @ [fst ?r]) (snd ?r)))
       = trace (snd ?r) @ es2"
    "filter (\<lambda>m. Type m = MessageTypeAssistant) (sent es2)
         = map (\<lambda>t. \<lparr>Type = MessageTypeAssistant, Content = t, Data = None\<rparr>) (texts rest)"
    "inputs es2 = []" "inferences es2 = []" "calls es2 = registered_calls tools rest"
    by blast
  show ?case
    by (intro exI[of _ "es1 @ es2"]) (simp add: Let_def e1 e2)
qed simp_all

lemma added_append [simp]: "trace st' = trace st @ es \<Longrightarrow> added st st' = es"
  by (simp add: added_def)

lemma processContent_keeps_acc:
  "b \<in> set acc \<Longrightarrow> b \<in> set (fst (processContent J fr tools content acc st))"
  by (induction J fr tools content acc st rule: processContent.induct) (simp_all add: Let_def)

lemma executeTool_not_found:
  "find_tool tools name = None \<Longrightarrow>
     fst (executeTool J fr tools tid name input st) = ToolResultBlock tid ''tool not found'' True"
  by (simp add: executeTool_def Let_def split: sum.splits)

lemma processContent_not_found:
  "find_tool tools name = None \<Longrightarrow> ToolUseBlock tid name input \<in> set content \<Longrightarrow>
     ToolResultBlock tid ''tool not found'' True
       \<in> set (fst (processContent J fr tools content acc st))"
proof (induction J fr tools content acc st rule: processContent.induct)
  case (3 J fr tools tid' name' input' rest toolResults st)
  show ?case
  proof (cases "ToolUseBlock tid name input = ToolUseBlock tid' name' input'")
    case True
    then have "fst (executeTool J fr tools tid' name' input' st)
                 = ToolResultBlock tid ''tool not found'' True"
      using 3(2) executeTool_not_found by auto
    then show ?thesis
      by (simp add: Let_def processContent_keeps_acc)
  next
    case False
    then have "ToolUseBlock tid name input \<in> set rest" using 3(3) by auto
    from 3(1)[OF refl 3(2) this] show ?thesis by (simp add: Let_def)
  qed
qed auto

lemma tool_use_ids_member:
  "ToolUseBlock tid name input \<in> set content \<Longrightarrow> tool_use_ids content \<noteq> []"
  by (induction content rule: tool_use_ids.induct) auto

lemma inferenceStep_tools:
  assumes "tool_use_ids content \<noteq> []"
  shows "inferenceStep J fr tools st (InferOk content)
           = Continue False
               ((snd (processContent J fr tools content []
                        (st\<lparr>trace := trace st @ [EvInfer (conversation st)],
                            conversation := conversation st @ [ToParam content]\<rparr>)))
                \<lparr>conversation := conversation st @
                    [ToParam content,
                     NewUserMessage (fst (processContent J fr tools content []
                        (st\<lparr>trace := trace st @ [EvInfer (conversation st)],
                            conversation := conversation st @ [ToParam content]\<rparr>)))]\<rparr>)"
proof -
  let ?st2 = "st\<lparr>trace := trace st @ [EvInfer (conversation st)],
                 conversation := conversation st @ [ToParam content]\<rparr>"
  obtain rs where "fst (processContent J fr tools content [] ?st2) = [] @ rs"
      "length rs = length (tool_use_ids content)"
    using processContent_results[of J fr tools content "[]" ?st2] by blast
  then have "length (fst (processContent J fr tools content [] ?st2)) \<noteq> 0"
    using assms by simp
  then show ?thesis
    by (simp add: inferenceStep_def Let_def)
qed

lemma runLoop_awaiting_model_step:
  "runLoop J fr tools False st (CtxLive r # evs)
     = (case inferenceStep J fr tools st r of
          Return x st' \<Rightarrow> (Returned x, st')
        | Continue rd st' \<Rightarrow> runLoop J fr tools rd st' evs)"
  by (simp add: iteration_def)

lemma inferenceStep_trace:
  "\<exists>es. trace (next_core (inferenceStep J fr tools st r)) = trace st @ EvInfer (conversation st) # es"
proof (cases r)
  case (InferFailed err)
  then show ?thesis by (simp add: inferenceStep_def Let_def)
next
  case (InferOk content)
  let ?st2 = "st\<lparr>trace := trace st @ [EvInfer (conversation st)],
                 conversation := conversation st @ [ToParam content]\<rparr>"
  obtain es where "trace (snd (processContent J fr tools content [] ?st2)) = trace ?st2 @ es"
    using processContent_trace[of J fr tools content "[]" ?st2] by blast
  then show ?thesis using InferOk
    by (intro exI[of _ es]) (simp add: inferenceStep_def Let_def)
qed

lemma runLoop_trace:
  "\<exists>es. trace (snd (runLoop J fr tools rd st evs)) = trace st @ es"
proof (induction evs arbitrary: rd st)
  case Nil
  then show ?case by simp
next
  case (Cons ev evs)
  have step: "\<exists>es. trace (next_core (iteration J fr tools rd st ev)) = trace st @ es"
  proof (cases ev)
    case (CtxDone e)
    then show ?thesis by (simp add: iteration_def)
  next
    case (CtxLive r)
    show ?thesis
    proof (cases "rd \<and> fst (readUserInputStep fr st)")
      case True
      obtain es where "trace (next_core (inferenceStep J fr tools (snd (readUserInputStep fr st)) r))
          = trace (snd (readUserInputStep fr st)) @ EvInfer (conversation (snd (readUserInputStep fr st))) # es"
        using inferenceStep_trace by blast
      moreover have "\<exists>es'. trace (snd (readUserInputStep fr st)) = trace st @ es'"
        by (simp add: readUserInputStep_def Let_def)
      ultimately show ?thesis using True CtxLive
        by (auto simp add: iteration_def Let_def)
    next
      case False
      then show ?thesis using CtxLive inferenceStep_trace[of J fr tools st r]
        by (auto simp add: iteration_def Let_def readUserInputStep_def)
    qed
  qed
  show ?case
  proof (cases "iteration J fr tools rd st ev")
    case (Continue rd' st')
    with step obtain es1 where "trace st' = trace st @ es1" by auto
    moreover obtain es2 where "trace (snd (runLoop J fr tools rd' st' evs)) = trace st' @ es2"
      using Cons.IH by blast
    ultimately show ?thesis using Continue by simp
  next
    case (Return r st')
    with step show ?thesis by simp
  qed
qed

lemma runLoop_awaiting_model:
  "\<exists>rest. trace (snd (runLoop J fr tools False st (CtxLive r # evs)))
             = trace st @ EvInfer (conversation st) # rest"
proof -
  obtain es where es: "trace (next_core (inferenceStep J fr tools st r))
      = trace st @ EvInfer (conversation st) # es"
    using inferenceStep_trace by blast
  show ?thesis
  proof (cases "inferenceStep J fr tools st r")
    case (Continue rd' st')
    obtain es2 where "trace (snd (runLoop J fr tools rd' st' evs)) = trace st' @ es2"
      using runLoop_trace by blast
    then show ?thesis using Continue es by (simp add: iteration_def)
  next
    case (Return x st')
    then show ?thesis using es by (simp add: iteration_def)
  qed
qed

lemma readUserInputStep_ok:
  assumes "GetUserInput fr (frontend st) = ((input, True), f)"
  shows "readUserInputStep fr st =
           (True, send fr \<lparr>Type = MessageTypeUserInput, Content = input, Data = None\<rparr>
                    (st\<lparr>frontend := f, trace := trace st @ [EvGetUserInput input True],
                        conversation := conversation st @ [NewUserMessage [TextBlock input]]\<rparr>))"
  using assms by (simp add: readUserInputStep_def Let_def)

lemmas example_defs =
  exampleCore_def exampleJson_def echoTool_def failTool_def consoleFrontend_def
  NewConsoleFrontend_def Console_SendMessage_def Console_GetUserInput_def
  Console_IsInteractive_def c_print_def newline_def sep_def

subsection \<open>The claims about the core loop and the dispatch of tools\<close>

text \<open>
  Claim C1. When the model's message contains at least one tool use, the turn of the loop
  that receives it continues (it does not return) with a conversation that is the old one
  followed by exactly two messages: the assistant message and, right after it, one user
  message of tool results. That message holds as many blocks as the assistant message has
  tool uses, and the identifiers of its tool-result blocks are the identifiers of the tool
  uses, in the same order: every block is a tool-result block, none is missing, repeated or
  moved.
\<close>

theorem tool_results_turn_follows:
  assumes "tool_use_ids content \<noteq> []"
  shows "\<exists>st' results.
           inferenceStep J fr tools st (InferOk content) = Continue False st'
         \<and> conversation st' = conversation st @ [ToParam content, NewUserMessage results]
         \<and> length results = length (tool_use_ids content)
         \<and> tool_result_ids results = tool_use_ids content"
proof -
  let ?st2 = "st\<lparr>trace := trace st @ [EvInfer (conversation st)],
                 conversation := conversation st @ [ToParam content]\<rparr>"
  obtain rs where "fst (processContent J fr tools content [] ?st2) = [] @ rs"
      "length rs = length (tool_use_ids content)" "tool_result_ids rs = tool_use_ids content"
    using processContent_results[of J fr tools content "[]" ?st2] by blast
  then show ?thesis
    by (auto simp add: inferenceStep_tools[OF assms])
qed

text \<open>The statement at a concrete input.\<close>

theorem tool_results_turn_follows_witness:
  "tool_use_ids [TextBlock ''Two calls.'', ToolUseBlock ''toolu_1'' ''echo'' ''{}'',
                 ToolUseBlock ''toolu_2'' ''missing'' ''{}''] \<noteq> []
   \<and> (\<exists>st' results.
         inferenceStep exampleJson (consoleFrontend exampleJson) [echoTool, failTool]
           (exampleCore True [])
           (InferOk [TextBlock ''Two calls.'', ToolUseBlock ''toolu_1'' ''echo'' ''{}'',
                     ToolUseBlock ''toolu_2'' ''missing'' ''{}''])
           = Continue False st'
       \<and> conversation st'
           = conversation (exampleCore True [])
             @ [ToParam [TextBlock ''Two calls.'', ToolUseBlock ''toolu_1'' ''echo'' ''{}'',
                         ToolUseBlock ''toolu_2'' ''missing'' ''{}''],
                NewUserMessage results]
       \<and> length results = 2
       \<and> tool_result_ids results = [''toolu_1'', ''toolu_2''])"
proof -
  have h: "tool_use_ids [TextBlock ''Two calls.'', ToolUseBlock ''toolu_1'' ''echo'' ''{}'',
                 ToolUseBlock ''toolu_2'' ''missing'' ''{}''] \<noteq> []"
    by simp
  have t: "tool_use_ids [TextBlock ''Two calls.'', ToolUseBlock ''toolu_1'' ''echo'' ''{}'',
                 ToolUseBlock ''toolu_2'' ''missing'' ''{}''] = [''toolu_1'', ''toolu_2'']"
    by simp
  have l: "length [''toolu_1'', ''toolu_2''] = (2::nat)"
    by simp
  from h tool_results_turn_follows[OF h, of exampleJson "consoleFrontend exampleJson"
        "[echoTool, failTool]" "exampleCore True []", unfolded t l]
  show ?thesis by blast
qed

text \<open>
  Claim C2. For a name that no tool of the catalog has, \<^verbatim>\<open>executeTool\<close> returns,
  for every identifier and every input, the tool-result block with the text
  \<^verbatim>\<open>"tool not found"\<close> and the error flag set. A turn of the loop whose message
  holds such a tool use does not return: it continues, without reading user input next, and
  the last message of its conversation is the user message of tool results, which holds
  that block.
\<close>

theorem unregistered_tool_is_reported:
  assumes "name \<notin> Name ` set tools" and "ToolUseBlock tid name input \<in> set content"
  shows "fst (executeTool J fr tools tid name input st0)
           = ToolResultBlock tid ''tool not found'' True
       \<and> (\<exists>st'. inferenceStep J fr tools st (InferOk content) = Continue False st'
             \<and> param_Role (last (conversation st')) = RoleUser
             \<and> ToolResultBlock tid ''tool not found'' True
                  \<in> set (param_Content (last (conversation st'))))"
proof -
  have nf: "find_tool tools name = None" using assms(1) by (simp add: find_tool_None_iff)
  have ne: "tool_use_ids content \<noteq> []" using assms(2) by (rule tool_use_ids_member)
  have "fst (executeTool J fr tools tid name input st0)
           = ToolResultBlock tid ''tool not found'' True"
    by (rule executeTool_not_found[OF nf])
  moreover have "\<exists>st'. inferenceStep J fr tools st (InferOk content) = Continue False st'
             \<and> param_Role (last (conversation st')) = RoleUser
             \<and> ToolResultBlock tid ''tool not found'' True
                  \<in> set (param_Content (last (conversation st')))"
    by (simp add: inferenceStep_tools[OF ne] NewUserMessage_def
          processContent_not_found[OF nf assms(2)])
  ultimately show ?thesis by (rule conjI)
qed

text \<open>The statement at a concrete input.\<close>

theorem unregistered_tool_is_reported_witness:
  "''missing'' \<notin> Name ` set [echoTool, failTool]
   \<and> ToolUseBlock ''toolu_1'' ''missing'' ''{}''
        \<in> set [TextBlock ''Let me look.'', ToolUseBlock ''toolu_1'' ''missing'' ''{}'']
   \<and> fst (executeTool exampleJson (consoleFrontend exampleJson) [echoTool, failTool]
             ''toolu_1'' ''missing'' ''{}'' (exampleCore True []))
        = ToolResultBlock ''toolu_1'' ''tool not found'' True
   \<and> (\<exists>st'. inferenceStep exampleJson (consoleFrontend exampleJson) [echoTool, failTool]
               (exampleCore True [])
               (InferOk [TextBlock ''Let me look.'', ToolUseBlock ''toolu_1'' ''missing'' ''{}''])
             = Continue False st'
          \<and> param_Role (last (conversation st')) = RoleUser
          \<and> ToolResultBlock ''toolu_1'' ''tool not found'' True
               \<in> set (param_Content (last (conversation st'))))"
proof -
  have h1: "''missing'' \<notin> Name ` set [echoTool, failTool]"
    by (simp add: echoTool_def failTool_def)
  have h2: "ToolUseBlock ''toolu_1'' ''missing'' ''{}''
        \<in> set [TextBlock ''Let me look.'', ToolUseBlock ''toolu_1'' ''missing'' ''{}'']"
    by simp
  show ?thesis
    using h1 h2 unregistered_tool_is_reported[OF h1 h2, of exampleJson "consoleFrontend exampleJson"
        "exampleCore True []" "exampleCore True []"]
    by blast
qed

text \<open>
  Claim C3, as amended. What one dispatch adds to the log: for a tool of the catalog a
  tool_call message, then the call of the tool function, then a tool_result message; for a
  name that is not in the catalog one tool_result message and nothing else, neither a
  tool_call message nor a call. That message carries the encoded result data with the
  text \<^verbatim>\<open>"tool not found"\<close> and the error flag set (and, should the encoding
  fail, the text alone).
\<close>

theorem dispatch_messages:
  "map kind (added st (snd (executeTool J fr tools tid name input st)))
     = (if find_tool tools name = None then [Sent MessageTypeToolResult]
        else [Sent MessageTypeToolCall, Called name input, Sent MessageTypeToolResult])
   \<and> (find_tool tools name = None \<longrightarrow>
        sent (added st (snd (executeTool J fr tools tid name input st)))
          = [case marshalResult J \<lparr>res_ToolName = name, res_ToolID = tid,
                                   res_Result = ''tool not found'', res_IsError = True\<rparr> of
               Inl err \<Rightarrow> \<lparr>Type = MessageTypeToolResult, Content = ''tool not found'', Data = None\<rparr>
             | Inr data \<Rightarrow> \<lparr>Type = MessageTypeToolResult, Content = [], Data = Some data\<rparr>])"
  by (simp add: executeTool_def Let_def added_def split: option.splits sum.splits)

text \<open>The statement at a concrete input.\<close>

theorem dispatch_messages_witness:
  "find_tool [echoTool, failTool] ''missing'' = None
   \<and> map kind (added (exampleCore True [])
         (snd (executeTool exampleJson (consoleFrontend exampleJson) [echoTool, failTool]
                 ''toolu_1'' ''missing'' ''{}'' (exampleCore True []))))
       = [Sent MessageTypeToolResult]
   \<and> map Content (sent (added (exampleCore True [])
         (snd (executeTool exampleJson (consoleFrontend exampleJson) [echoTool, failTool]
                 ''toolu_1'' ''missing'' ''{}'' (exampleCore True []))))) = [[]]
   \<and> map kind (added (exampleCore True [])
         (snd (executeTool exampleJson (consoleFrontend exampleJson) [echoTool, failTool]
                 ''toolu_2'' ''echo'' ''{}'' (exampleCore True []))))
       = [Sent MessageTypeToolCall, Called ''echo'' ''{}'', Sent MessageTypeToolResult]"
proof -
  have nf: "find_tool [echoTool, failTool] ''missing'' = None"
    by (simp add: echoTool_def failTool_def)
  have f: "find_tool [echoTool, failTool] ''echo'' \<noteq> None"
    by (simp add: echoTool_def failTool_def)
  show ?thesis
    using nf f
      dispatch_messages[of "exampleCore True []" exampleJson "consoleFrontend exampleJson"
        "[echoTool, failTool]" "''toolu_1''" "''missing''" "''{}''"]
      dispatch_messages[of "exampleCore True []" exampleJson "consoleFrontend exampleJson"
        "[echoTool, failTool]" "''toolu_2''" "''echo''" "''{}''"]
    by (simp add: exampleJson_def)
qed

text \<open>
  The claim as it was stated also asks for a tool_call message when the name is not in the
  catalog. The only message of such a dispatch is the tool_result message.
\<close>

theorem unregistered_dispatch_sends_no_tool_call:
  "map Type (sent (trace (snd (executeTool exampleJson (consoleFrontend exampleJson)
       [echoTool, failTool] ''toolu_1'' ''missing'' ''{}'' (exampleCore True [])))))
     = [MessageTypeToolResult]"
  by (simp add: executeTool_def exampleCore_def exampleJson_def echoTool_def failTool_def Let_def)

text \<open>
  Claim C4. When the call of the model fails, the turn sends exactly one message, of type
  error, with the text of the failure. If the frontend then reports interactive, the loop
  goes on in the state that reads user input: the loop from the failing call on is the loop
  with \<^verbatim>\<open>readUserInput\<close> set, and if its next turn obtains an input, that input is
  sent as a user_input message and the model is called with the conversation extended by
  it. If the frontend reports non-interactive, the loop returns the error of the call.
\<close>

theorem gateway_failure:
  "(let st' = next_core (inferenceStep J fr tools st (InferFailed err)) in
      sent (added st st')
        = [\<lparr>Type = MessageTypeError, Content = ''LLM request failed: '' @ err, Data = None\<rparr>]
    \<and> (IsInteractive fr (frontend st') \<longrightarrow>
         runLoop J fr tools False st (CtxLive (InferFailed err) # evs)
           = runLoop J fr tools True st' evs)
    \<and> (IsInteractive fr (frontend st') \<longrightarrow>
         GetUserInput fr (frontend st') = ((input, True), f) \<longrightarrow>
         (\<exists>rest. trace (snd (runLoop J fr tools True st' (CtxLive r # evs')))
            = trace st' @ [EvGetUserInput input True,
                           EvSendMessage \<lparr>Type = MessageTypeUserInput, Content = input,
                                          Data = None\<rparr>,
                           EvInfer (conversation st @ [NewUserMessage [TextBlock input]])]
                        @ rest))
    \<and> (\<not> IsInteractive fr (frontend st') \<longrightarrow>
         runLoop J fr tools False st (CtxLive (InferFailed err) # evs)
           = (Returned (Some err), st')))"
proof -
  define st' where "st' = send fr \<lparr>Type = MessageTypeError,
                            Content = ''LLM request failed: '' @ err, Data = None\<rparr>
                     (st\<lparr>trace := trace st @ [EvInfer (conversation st)]\<rparr>)"
  have nc: "next_core (inferenceStep J fr tools st (InferFailed err)) = st'"
    by (simp add: inferenceStep_def Let_def st'_def)
  have a: "sent (added st st')
           = [\<lparr>Type = MessageTypeError, Content = ''LLM request failed: '' @ err, Data = None\<rparr>]"
    by (simp add: st'_def added_def)
  have b: "runLoop J fr tools False st (CtxLive (InferFailed err) # evs)
              = runLoop J fr tools True st' evs" if "IsInteractive fr (frontend st')"
    using that by (simp add: iteration_def inferenceStep_def Let_def st'_def)
  have c: "runLoop J fr tools False st (CtxLive (InferFailed err) # evs)
              = (Returned (Some err), st')" if "\<not> IsInteractive fr (frontend st')"
    using that by (simp add: iteration_def inferenceStep_def Let_def st'_def)
  have d: "\<exists>rest. trace (snd (runLoop J fr tools True st' (CtxLive r # evs')))
               = trace st' @ [EvGetUserInput input True,
                              EvSendMessage \<lparr>Type = MessageTypeUserInput, Content = input,
                                             Data = None\<rparr>,
                              EvInfer (conversation st @ [NewUserMessage [TextBlock input]])]
                           @ rest"
    if g: "GetUserInput fr (frontend st') = ((input, True), f)"
  proof -
    let ?st1 = "send fr \<lparr>Type = MessageTypeUserInput, Content = input, Data = None\<rparr>
                (st'\<lparr>frontend := f, trace := trace st' @ [EvGetUserInput input True],
                     conversation := conversation st' @ [NewUserMessage [TextBlock input]]\<rparr>)"
    have it: "iteration J fr tools True st' (CtxLive r) = inferenceStep J fr tools ?st1 r"
      by (simp add: iteration_def readUserInputStep_ok[OF g])
    have it2: "iteration J fr tools False ?st1 (CtxLive r) = inferenceStep J fr tools ?st1 r"
      by (simp add: iteration_def)
    obtain rest where rest: "trace (snd (runLoop J fr tools False ?st1 (CtxLive r # evs')))
             = trace ?st1 @ EvInfer (conversation ?st1) # rest"
      using runLoop_awaiting_model by blast
    have "runLoop J fr tools True st' (CtxLive r # evs')
          = runLoop J fr tools False ?st1 (CtxLive r # evs')"
      by (simp only: runLoop.simps it it2)
    then show ?thesis
      using rest by (simp add: st'_def)
  qed
  show ?thesis
    unfolding Let_def nc using a b c d by blast
qed

text \<open>The statement at a concrete input.\<close>

theorem gateway_failure_witness:
  "IsInteractive (consoleFrontend exampleJson)
     (frontend (next_core (inferenceStep exampleJson (consoleFrontend exampleJson) [echoTool]
        (exampleCore True [''again'']) (InferFailed ''timeout''))))
   \<and> sent (trace (snd (runLoop exampleJson (consoleFrontend exampleJson) [echoTool] False
        (exampleCore True [''again''])
        [CtxLive (InferFailed ''timeout''), CtxLive (InferOk [TextBlock ''hello''])])))
      = [\<lparr>Type = MessageTypeError, Content = ''LLM request failed: timeout'', Data = None\<rparr>,
         \<lparr>Type = MessageTypeUserInput, Content = ''again'', Data = None\<rparr>,
         \<lparr>Type = MessageTypeAssistant, Content = ''hello'', Data = None\<rparr>]
   \<and> \<not> IsInteractive (consoleFrontend exampleJson)
     (frontend (next_core (inferenceStep exampleJson (consoleFrontend exampleJson) [echoTool]
        (exampleCore False []) (InferFailed ''timeout''))))
   \<and> fst (runLoop exampleJson (consoleFrontend exampleJson) [echoTool] False
        (exampleCore False []) [CtxLive (InferFailed ''timeout''), CtxLive (InferOk [TextBlock ''hello''])])
      = Returned (Some ''timeout'')"
proof -
  let ?J = exampleJson and ?fr = "consoleFrontend exampleJson"
  let ?a = "next_core (inferenceStep ?J ?fr [echoTool] (exampleCore True [''again''])
              (InferFailed ''timeout''))"
  let ?b = "next_core (inferenceStep ?J ?fr [echoTool] (exampleCore False [])
              (InferFailed ''timeout''))"
  have ia: "IsInteractive ?fr (frontend ?a)"
    by (simp add: inferenceStep_def send_def Let_def example_defs)
  have ib: "\<not> IsInteractive ?fr (frontend ?b)"
    by (simp add: inferenceStep_def send_def Let_def example_defs)
  have 1: "runLoop ?J ?fr [echoTool] False (exampleCore True [''again''])
             [CtxLive (InferFailed ''timeout''), CtxLive (InferOk [TextBlock ''hello''])]
           = runLoop ?J ?fr [echoTool] True ?a [CtxLive (InferOk [TextBlock ''hello''])]"
    using gateway_failure[of ?J ?fr "[echoTool]" "exampleCore True [''again'']" "''timeout''"] ia
    unfolding Let_def by blast
  have 2: "runLoop ?J ?fr [echoTool] False (exampleCore False [])
             [CtxLive (InferFailed ''timeout''), CtxLive (InferOk [TextBlock ''hello''])]
           = (Returned (Some ''timeout''), ?b)"
    using gateway_failure[of ?J ?fr "[echoTool]" "exampleCore False []" "''timeout''"] ib
    unfolding Let_def by blast
  have 3: "sent (trace (snd (runLoop ?J ?fr [echoTool] True ?a [CtxLive (InferOk [TextBlock ''hello''])])))
      = [\<lparr>Type = MessageTypeError, Content = ''LLM request failed: timeout'', Data = None\<rparr>,
         \<lparr>Type = MessageTypeUserInput, Content = ''again'', Data = None\<rparr>,
         \<lparr>Type = MessageTypeAssistant, Content = ''hello'', Data = None\<rparr>]"
    by (simp add: iteration_def inferenceStep_def readUserInputStep_def send_def Let_def
          NewUserMessage_def ToParam_def example_defs)
  show ?thesis using ia ib 1 2 3 by simp
qed

text \<open>
  Claim C5. When the model's message contains at least one tool use, the turn calls the
  tool functions of the registered tool uses in the order of the message, and returns one
  result block per tool use in that order; between the call of the model and the end of the
  turn it neither reads user input nor calls the model again. It appends the assistant
  message and the user message of tool results and continues with
  \<^verbatim>\<open>readUserInput\<close> unset, so that the first thing the next turn does is to call
  the model with that conversation; the only other way the next turn can go is the
  cancellation of the context, on which the loop returns the context's error without having
  done anything.
\<close>

theorem tool_results_then_model:
  assumes "tool_use_ids content \<noteq> []"
  shows "\<exists>st' results mid.
           inferenceStep J fr tools st (InferOk content) = Continue False st'
         \<and> conversation st' = conversation st @ [ToParam content, NewUserMessage results]
         \<and> tool_result_ids results = tool_use_ids content
         \<and> added st st' = EvInfer (conversation st) # mid
         \<and> calls mid = registered_calls tools content
         \<and> inputs mid = [] \<and> inferences mid = []
         \<and> (\<forall>r evs. \<exists>rest. trace (snd (runLoop J fr tools False st' (CtxLive r # evs)))
                               = trace st' @ EvInfer (conversation st') # rest)
         \<and> (\<forall>e evs. runLoop J fr tools False st' (CtxDone e # evs) = (Returned (Some e), st'))"
proof -
  let ?st2 = "st\<lparr>trace := trace st @ [EvInfer (conversation st)],
                 conversation := conversation st @ [ToParam content]\<rparr>"
  let ?p = "processContent J fr tools content [] ?st2"
  let ?st' = "(snd ?p)\<lparr>conversation := conversation st @ [ToParam content, NewUserMessage (fst ?p)]\<rparr>"
  have 1: "inferenceStep J fr tools st (InferOk content) = Continue False ?st'"
    by (rule inferenceStep_tools[OF assms])
  obtain rs where rs: "fst ?p = [] @ rs" "tool_result_ids rs = tool_use_ids content"
    using processContent_results[of J fr tools content "[]" ?st2] by blast
  obtain mid where mid: "trace (snd ?p) = trace ?st2 @ mid" "inputs mid = []"
      "inferences mid = []" "calls mid = registered_calls tools content"
    using processContent_trace[of J fr tools content "[]" ?st2] by blast
  have 2: "added st ?st' = EvInfer (conversation st) # mid"
    using mid(1) by (simp add: added_def)
  have 3: "\<forall>r evs. \<exists>rest. trace (snd (runLoop J fr tools False ?st' (CtxLive r # evs)))
                               = trace ?st' @ EvInfer (conversation ?st') # rest"
    using runLoop_awaiting_model by blast
  have 4: "\<forall>e evs. runLoop J fr tools False ?st' (CtxDone e # evs) = (Returned (Some e), ?st')"
    by (simp add: iteration_def)
  have 5: "conversation ?st' = conversation st @ [ToParam content, NewUserMessage (fst ?p)]"
    by simp
  have 6: "tool_result_ids (fst ?p) = tool_use_ids content" using rs by simp
  from 1 5 6 2 mid(4) mid(2) mid(3) 3 4 show ?thesis by blast
qed

text \<open>The statement at a concrete input.\<close>

theorem tool_results_then_model_witness:
  "tool_use_ids [ToolUseBlock ''toolu_1'' ''echo'' ''{}''] \<noteq> []
   \<and> (\<exists>st' results mid.
           inferenceStep exampleJson (consoleFrontend exampleJson) [echoTool, failTool]
             (exampleCore True [''next question''])
             (InferOk [ToolUseBlock ''toolu_1'' ''echo'' ''{}'']) = Continue False st'
         \<and> conversation st' = conversation (exampleCore True [''next question''])
              @ [ToParam [ToolUseBlock ''toolu_1'' ''echo'' ''{}''], NewUserMessage results]
         \<and> tool_result_ids results = [''toolu_1'']
         \<and> added (exampleCore True [''next question'']) st'
              = EvInfer (conversation (exampleCore True [''next question''])) # mid
         \<and> calls mid = [(''echo'', ''{}'')]
         \<and> inputs mid = [] \<and> inferences mid = []
         \<and> (\<forall>r evs. \<exists>rest.
               trace (snd (runLoop exampleJson (consoleFrontend exampleJson) [echoTool, failTool]
                             False st' (CtxLive r # evs)))
                 = trace st' @ EvInfer (conversation st') # rest)
         \<and> (\<forall>e evs. runLoop exampleJson (consoleFrontend exampleJson) [echoTool, failTool]
                        False st' (CtxDone e # evs) = (Returned (Some e), st')))"
proof -
  have h: "tool_use_ids [ToolUseBlock ''toolu_1'' ''echo'' ''{}''] \<noteq> []"
    by simp
  have r: "registered_calls [echoTool, failTool] [ToolUseBlock ''toolu_1'' ''echo'' ''{}'']
             = [(''echo'', ''{}'')]"
    by (simp add: echoTool_def failTool_def)
  have t: "tool_use_ids [ToolUseBlock ''toolu_1'' ''echo'' ''{}''] = [''toolu_1'']"
    by simp
  from h tool_results_then_model[OF h, of exampleJson "consoleFrontend exampleJson"
        "[echoTool, failTool]" "exampleCore True [''next question'']", unfolded t r]
  show ?thesis by blast
qed

text \<open>
  Claim C6. For every answer of the model, the assistant messages that the turn sends to
  the frontend are exactly one per text item of the answer, with the text of the item, in
  the order of the items; whatever the frontend is or reports, and whether or not the
  answer also holds tool uses.
\<close>

theorem assistant_message_per_text:
  "filter (\<lambda>m. Type m = MessageTypeAssistant)
     (sent (added st (next_core (inferenceStep J fr tools st (InferOk content)))))
   = map (\<lambda>t. \<lparr>Type = MessageTypeAssistant, Content = t, Data = None\<rparr>) (texts content)"
proof -
  let ?st2 = "st\<lparr>trace := trace st @ [EvInfer (conversation st)],
                 conversation := conversation st @ [ToParam content]\<rparr>"
  obtain es where es: "trace (snd (processContent J fr tools content [] ?st2)) = trace ?st2 @ es"
    "filter (\<lambda>m. Type m = MessageTypeAssistant) (sent es)
       = map (\<lambda>t. \<lparr>Type = MessageTypeAssistant, Content = t, Data = None\<rparr>) (texts content)"
    using processContent_trace[of J fr tools content "[]" ?st2] by blast
  have "trace (next_core (inferenceStep J fr tools st (InferOk content)))
          = trace st @ (EvInfer (conversation st) # es)"
    using es(1) by (simp add: inferenceStep_def Let_def)
  then have "added st (next_core (inferenceStep J fr tools st (InferOk content)))
          = EvInfer (conversation st) # es"
    by (rule added_append)
  then show ?thesis using es(2) by simp
qed

text \<open>The statement at a concrete input.\<close>

theorem assistant_message_per_text_witness:
  "filter (\<lambda>m. Type m = MessageTypeAssistant)
     (sent (added (exampleCore False [])
        (next_core (inferenceStep exampleJson (consoleFrontend exampleJson) [echoTool, failTool]
           (exampleCore False [])
           (InferOk [TextBlock ''I will run it.'', ToolUseBlock ''toolu_1'' ''echo'' ''{}'',
                     TextBlock ''Running.''])))))
   = [\<lparr>Type = MessageTypeAssistant, Content = ''I will run it.'', Data = None\<rparr>,
      \<lparr>Type = MessageTypeAssistant, Content = ''Running.'', Data = None\<rparr>]"
  using assistant_message_per_text[of "exampleCore False []" exampleJson
      "consoleFrontend exampleJson" "[echoTool, failTool]"
      "[TextBlock ''I will run it.'', ToolUseBlock ''toolu_1'' ''echo'' ''{}'',
        TextBlock ''Running.'']"]
  by simp

text \<open>
  Claim C10. The block that \<^verbatim>\<open>executeTool\<close> returns is a tool-result block with
  the identifier it was called with, for every catalog, name and input: when the tool is
  not found, when its function fails and when it succeeds.
\<close>

theorem executeTool_result_carries_id:
  "tool_result_ids [fst (executeTool J fr tools tid name input st)] = [tid]"
  using executeTool_result_id[of J fr tools tid name input st] by auto

text \<open>The statement at a concrete input.\<close>

theorem executeTool_result_carries_id_witness:
  "tool_result_ids [fst (executeTool exampleJson (consoleFrontend exampleJson) [echoTool, failTool]
      ''toolu_1'' ''missing'' ''{}'' (exampleCore True []))] = [''toolu_1'']
   \<and> tool_result_ids [fst (executeTool exampleJson (consoleFrontend exampleJson) [echoTool, failTool]
      ''toolu_2'' ''fail'' ''{}'' (exampleCore True []))] = [''toolu_2'']
   \<and> tool_result_ids [fst (executeTool exampleJson (consoleFrontend exampleJson) [echoTool, failTool]
      ''toolu_3'' ''echo'' ''{}'' (exampleCore True []))] = [''toolu_3'']"
  by (intro conjI executeTool_result_carries_id)

subsection \<open>Further facts about the core\<close>

text \<open>
  The whole run keeps the conversation in shape: whatever the frontend, the tools and the
  script of the outside are, the conversation \<^verbatim>\<open>runCore\<close> ends with is well formed.
\<close>

lemma well_formed_append:
  "well_formed xs \<Longrightarrow> well_formed ys \<Longrightarrow> well_formed (xs @ ys)"
proof (induction xs rule: well_formed.induct)
  case 1
  then show ?case by simp
next
  case (2 m)
  then show ?case by (cases ys) simp_all
next
  case (3 m r rest)
  then show ?case by (simp split: if_splits)
qed

lemma readUserInputStep_well_formed:
  "well_formed (conversation st) \<Longrightarrow> well_formed (conversation (snd (readUserInputStep fr st)))"
  by (simp add: readUserInputStep_def Let_def well_formed_append NewUserMessage_def
        has_tool_use_def is_tool_results_def)

lemma inferenceStep_well_formed:
  assumes "well_formed (conversation st)"
  shows "well_formed (conversation (next_core (inferenceStep J fr tools st r)))"
proof (cases r)
  case (InferFailed err)
  then show ?thesis using assms by (simp add: inferenceStep_def Let_def)
next
  case (InferOk content)
  let ?st2 = "st\<lparr>trace := trace st @ [EvInfer (conversation st)],
                 conversation := conversation st @ [ToParam content]\<rparr>"
  obtain rs where rs: "fst (processContent J fr tools content [] ?st2) = [] @ rs"
      "length rs = length (tool_use_ids content)" "tool_result_ids rs = tool_use_ids content"
    using processContent_results[of J fr tools content "[]" ?st2] by blast
  show ?thesis
  proof (cases "tool_use_ids content = []")
    case True
    then have "rs = []" using rs(2) by simp
    moreover have "well_formed [ToParam content]"
      using True by (simp add: ToParam_def has_tool_use_def is_tool_results_def)
    ultimately show ?thesis using InferOk rs(1) assms
      by (simp add: inferenceStep_def Let_def well_formed_append)
  next
    case False
    have "well_formed [ToParam content, NewUserMessage rs]"
      using False rs by (simp add: ToParam_def NewUserMessage_def has_tool_use_def results_for_def)
    then have "well_formed (conversation st @ [ToParam content, NewUserMessage rs])"
      using assms by (rule well_formed_append[rotated])
    then show ?thesis using InferOk rs(1) by (simp add: inferenceStep_tools[OF False])
  qed
qed

lemma iteration_well_formed:
  "well_formed (conversation st) \<Longrightarrow>
     well_formed (conversation (next_core (iteration J fr tools rd st ev)))"
  by (cases ev)
     (simp_all add: iteration_def Let_def inferenceStep_well_formed readUserInputStep_well_formed)

lemma runLoop_well_formed:
  "well_formed (conversation st) \<Longrightarrow>
     well_formed (conversation (snd (runLoop J fr tools rd st evs)))"
proof (induction evs arbitrary: rd st)
  case Nil
  then show ?case by simp
next
  case (Cons ev evs)
  have "well_formed (conversation (next_core (iteration J fr tools rd st ev)))"
    using Cons.prems by (rule iteration_well_formed)
  then show ?case using Cons.IH
    by (cases "iteration J fr tools rd st ev") simp_all
qed

lemma runCore_well_formed:
  "well_formed (conversation (snd (runCore J fr tools initialMessage f script)))"
  by (simp add: runCore_def Let_def runLoop_well_formed NewUserMessage_def has_tool_use_def
        is_tool_results_def)

text \<open>
  What the model is told when a tool fails: the frontend is sent the error of the tool,
  with the error flag, while the block that goes into the conversation carries the string
  the function returned beside its error, and no error flag.
\<close>

lemma executeTool_failed_tool:
  assumes "find_tool tools name = Some toolDef"
    and "Function toolDef input = (response, Some e)"
    and "marshalResult J \<lparr>res_ToolName = name, res_ToolID = tid, res_Result = e,
                           res_IsError = True\<rparr> = Inr data"
  shows "fst (executeTool J fr tools tid name input st) = ToolResultBlock tid response False"
  using assms by (simp add: executeTool_def Let_def)

section \<open>Properties of the frontends\<close>

subsection \<open>Auxiliary facts\<close>



subsection \<open>Closing a frontend\<close>

text \<open>
  The console frontend has nothing to close, and a terminal frontend without a program
  (the non-interactive one) returns at once, any number of times.
\<close>

lemma Console_Close_twice: "Console_Close (Console_Close c) = c"
  by (simp add: Console_Close_def)

lemma TUI_Close_non_interactive:
  "TUI_Close early (NewTUIFrontend L False) = Returns (NewTUIFrontend L False)"
  by (simp add: TUI_Close_def NewTUIFrontend_def)

text \<open>
  Claim C7 does not hold of the interactive terminal frontend. The first \<^verbatim>\<open>Close\<close>
  of a new frontend returns, having received the one value that is ever sent on
  \<^verbatim>\<open>done\<close>; a second \<^verbatim>\<open>Close\<close> finds the buffer empty, takes the default
  branch of its \<^verbatim>\<open>select\<close> and waits there for a value that no one is left to
  send. This is so whether or not the goroutine \<^verbatim>\<open>run\<close> has sent before either
  \<^verbatim>\<open>select\<close>.
\<close>

theorem Close_twice_blocks:
  "(case TUI_Close early1 (NewTUIFrontend L True) of
      Returns t1 \<Rightarrow> TUI_Close early2 t1 = BlockedForever
    | _ \<Rightarrow> False)"
  by (cases early1; cases early2)
     (simp_all add: TUI_Close_def NewTUIFrontend_def program_Quit_def run_returns_def Let_def)

text \<open>
  The same wait meets a single \<^verbatim>\<open>Close\<close> when \<^verbatim>\<open>GetUserInput\<close> was
  released first: the user quits the program with \<^verbatim>\<open>q\<close>, \<^verbatim>\<open>run\<close> sends
  on \<^verbatim>\<open>done\<close>, \<^verbatim>\<open>GetUserInput\<close> receives the value and reports the end of
  input, and the \<^verbatim>\<open>Close\<close> that follows blocks.
\<close>

lemma Close_after_released_input_wait_blocks:
  "(case program_Send L J timestamp (KeyMsg ''q'') (NewTUIFrontend L True) of
      Returns t1 \<Rightarrow>
        (case TUI_GetUserInput L J timestamp preferInput (run_returns t1) of
           Returns r \<Rightarrow> fst r = ([], False) \<and> TUI_Close early (snd r) = BlockedForever
         | _ \<Rightarrow> False)
    | _ \<Rightarrow> False)"
  by (simp add: program_Send_def Update_def NewTUIFrontend_def newModel_def run_returns_def
        TUI_GetUserInput_def TUI_Close_def program_Quit_def Let_def)

subsection \<open>Rendering of errors\<close>




subsection \<open>The animation tick\<close>




end
